theory Spec2Isabelle
  imports Complex_Main "HOL-Library.Multiset"
begin

section \<open>Cards, hands and views\<close>

text \<open>
  Modelled from the spec: the type declarations of \<^verbatim>\<open>src/lib/types.ts\<close> (\<^verbatim>\<open>Suit\<close>,
  \<^verbatim>\<open>Rank\<close>, \<^verbatim>\<open>CardType\<close>, \<^verbatim>\<open>ClientCardType\<close>, \<^verbatim>\<open>GameResult\<close>, \<^verbatim>\<open>GameSession\<close>,
  \<^verbatim>\<open>ProvablyFairData\<close>, \<^verbatim>\<open>ClientGameState\<close>) are not among the sources. The types
  below follow the data model of the specification and the way \<^verbatim>\<open>game-logic.ts\<close> and
  \<^verbatim>\<open>actions.ts\<close> build and read the values: the enumeration order of suits and ranks is
  that of the arrays in \<^verbatim>\<open>createDeck\<close>, the fields are those the object literals set.
  The string literals of a union type are the constructors of a datatype; \<open>R_2\<close> stands
  for the rank \<^verbatim>\<open>"2"\<close>, \<open>R_A\<close> for \<^verbatim>\<open>"A"\<close>.
\<close>

datatype Suit = Hearts | Diamonds | Clubs | Spades

datatype Rank = R_A | R_2 | R_3 | R_4 | R_5 | R_6 | R_7 | R_8 | R_9 | R_10 | R_J | R_Q | R_K

datatype GameResult = PlayerWin | DealerWin | Push | Blackjack | Bust | DealerBust

datatype GameState = Betting | Playing | DealerTurn | GameOver

text \<open>
  A JavaScript \<^verbatim>\<open>number\<close> that holds money is an exact rational here: rounding of
  doubles, \<^verbatim>\<open>NaN\<close> and the infinities are outside the model. Scores are sums of small
  integers and are integers.
\<close>

type_synonym number = rat

text \<open>
  The view types come first, with a \<open>C\<close> after each field name that a server-side
  record uses too. An optional field is an \<open>option\<close>: \<open>None\<close> is \<^verbatim>\<open>undefined\<close>, the
  field being absent from the object sent to the client.
\<close>

record ClientCardType =
  idC :: string
  suitC :: "Suit option"
  rankC :: "Rank option"
  hiddenC :: bool
  isNew :: bool
  isInitialDeal :: bool

record ClientProvablyFair =
  gameIdC :: string
  clientSeedC :: string
  hashedServerSeedC :: string
  serverSeedC :: "string option"
  nonceC :: int
  completedC :: bool

record ClientGameState =
  sessionId :: string
  dealerCardsC :: "ClientCardType list"
  playerCardsC :: "ClientCardType list"
  gameStateC :: GameState
  balanceC :: number
  betC :: number
  dealerScore :: int
  playerScore :: int
  gameResultC :: "GameResult option"
  message :: string
  provablyFairC :: "ClientProvablyFair option"

record CardType =
  suit :: Suit
  rank :: Rank
  hidden :: "bool option"

record ProvablyFairData =
  gameId :: string
  serverSeed :: string
  hashedServerSeed :: string
  clientSeed :: string
  nonce :: int
  completed :: bool

record GameSession =
  id' :: string
  deck :: "CardType list"
  dealerCards :: "CardType list"
  playerCards :: "CardType list"
  gameState :: GameState
  balance :: number
  bet :: number
  gameResult :: "GameResult option"
  provablyFair :: "ProvablyFairData option"

section \<open>Scoring (\<^verbatim>\<open>src/lib/game-logic.ts\<close>)\<close>

text \<open>
  \<^verbatim>\<open>parseInt(card.rank, 10)\<close> on the rank literals. \<^verbatim>\<open>calculateScore\<close> asks for it on the
  numeric ranks only (the ace and the face cards are handled before), so the function is
  given on those and left unspecified on the four letters, where JavaScript has \<^verbatim>\<open>NaN\<close>.
\<close>

fun parseInt10 :: "Rank \<Rightarrow> int" where
  "parseInt10 R_2 = 2"
| "parseInt10 R_3 = 3"
| "parseInt10 R_4 = 4"
| "parseInt10 R_5 = 5"
| "parseInt10 R_6 = 6"
| "parseInt10 R_7 = 7"
| "parseInt10 R_8 = 8"
| "parseInt10 R_9 = 9"
| "parseInt10 R_10 = 10"

text \<open>The body of the \<^verbatim>\<open>for\<close> loop of \<^verbatim>\<open>calculateScore\<close>, on the pair \<open>(score, aces)\<close>.\<close>

fun scoreCard :: "int \<times> nat \<Rightarrow> CardType \<Rightarrow> int \<times> nat" where
  "scoreCard (score, aces) card' =
     (if rank card' = R_A then (score + 11, aces + 1)
      else if rank card' \<in> set [R_K, R_Q, R_J] then (score + 10, aces)
      else (score + parseInt10 (rank card'), aces))"

text \<open>The \<^verbatim>\<open>while (score > 21 && aces > 0)\<close> loop.\<close>

fun adjustAces :: "int \<Rightarrow> nat \<Rightarrow> int" where
  "adjustAces score aces =
     (if score > 21 \<and> aces > 0 then adjustAces (score - 10) (aces - 1) else score)"

declare adjustAces.simps [simp del]

definition calculateScore :: "CardType list \<Rightarrow> int" where
  "calculateScore cards =
     (case foldl scoreCard (0, 0) cards of (score, aces) \<Rightarrow> adjustAces score aces)"

text \<open>
  The scoring rule in the words of the specification, to compare with the code: the
  value of a rank, the sum of the values with every ace at 11, the number of aces, and
  the downgrade of soft aces one at a time.
\<close>

fun rankValue_spec :: "Rank \<Rightarrow> int" where
  "rankValue_spec R_A = 11"
| "rankValue_spec R_J = 10"
| "rankValue_spec R_Q = 10"
| "rankValue_spec R_K = 10"
| "rankValue_spec R_2 = 2"
| "rankValue_spec R_3 = 3"
| "rankValue_spec R_4 = 4"
| "rankValue_spec R_5 = 5"
| "rankValue_spec R_6 = 6"
| "rankValue_spec R_7 = 7"
| "rankValue_spec R_8 = 8"
| "rankValue_spec R_9 = 9"
| "rankValue_spec R_10 = 10"

fun downgrade_spec :: "int \<Rightarrow> nat \<Rightarrow> int" where
  "downgrade_spec tot 0 = tot"
| "downgrade_spec tot (Suc soft) =
     (if tot > 21 then downgrade_spec (tot - 10) soft else tot)"

definition score_spec :: "CardType list \<Rightarrow> int" where
  "score_spec cards =
     downgrade_spec (\<Sum>c\<leftarrow>cards. rankValue_spec (rank c))
       (length (filter (\<lambda>c. rank c = R_A) cards))"

section \<open>Hand resolution and payout (\<^verbatim>\<open>src/lib/game-logic.ts\<close>)\<close>

definition determineGameResult :: "CardType list \<Rightarrow> CardType list \<Rightarrow> GameResult" where
  "determineGameResult playerCards' dealerCards' =
     (let playerScore' = calculateScore playerCards';
          dealerScore' = calculateScore dealerCards'
      in if playerScore' > 21 then Bust
         else if dealerScore' > 21 then DealerBust
         else if playerScore' = 21 \<and> length playerCards' = 2 then
           (if dealerScore' = 21 \<and> length dealerCards' = 2 then Push else Blackjack)
         else if playerScore' > dealerScore' then PlayerWin
         else if dealerScore' > playerScore' then DealerWin
         else Push)"

fun calculatePayout :: "number \<Rightarrow> GameResult \<Rightarrow> number" where
  "calculatePayout bet' PlayerWin = bet' * 2"
| "calculatePayout bet' DealerBust = bet' * 2"
| "calculatePayout bet' Push = bet'"
| "calculatePayout bet' Blackjack = bet' * 2.5"
| "calculatePayout bet' _ = 0"

section \<open>The collaborators outside the engine\<close>

text \<open>
  Identifier generation (\<^verbatim>\<open>uuidv4\<close>), \<^verbatim>\<open>Math.random\<close>, and \<^verbatim>\<open>generateSeed\<close> and
  \<^verbatim>\<open>hashSeed\<close> of \<^verbatim>\<open>src/lib/provably-fair.ts\<close> are not among the sources. They are the
  fields of an environment: the random sources answer by the number of the draw (the
  \<open>tick\<close> of the world below counts the draws made so far), so that two calls get two
  answers. \<open>mathRandom e n b\<close> is \<^verbatim>\<open>Math.floor(Math.random() * b)\<close> at draw \<open>n\<close>;
  \<open>keyedStream e serverSeed clientSeed k\<close> is the \<open>k\<close>-th number of the keyed
  deterministic stream of the two seeds.
\<close>

record env =
  uuidv4 :: "nat \<Rightarrow> string"
  generateSeed :: "nat \<Rightarrow> nat \<Rightarrow> string"
  hashSeed :: "string \<Rightarrow> string"
  mathRandom :: "nat \<Rightarrow> nat \<Rightarrow> nat"
  keyedStream :: "string \<Rightarrow> string \<Rightarrow> nat \<Rightarrow> nat"

text \<open>
  The session store behind \<^verbatim>\<open>getSession\<close>, \<^verbatim>\<open>createSession\<close> and \<^verbatim>\<open>updateSession\<close>
  (\<^verbatim>\<open>src/lib/session-utils.ts\<close>, not among the sources) holds at most one session, that of
  the caller's cookie.
\<close>

record world =
  store :: "GameSession option"
  tick :: nat

text \<open>
  A value typed \<^verbatim>\<open>CardType\<close> that is \<^verbatim>\<open>undefined\<close> when the program runs: the
  non-null assertion of \<^verbatim>\<open>session.deck.pop()!\<close> on an empty deck, or \<^verbatim>\<open>orderedDeck[index]\<close>
  out of range. From there on TypeScript's types no longer describe the run (the score of
  such a hand is \<^verbatim>\<open>NaN\<close>, or reading its rank throws), so the model stops with a fault.
\<close>

datatype fault = DeckUnderflow | IndexOutOfRange

definition pop :: "CardType list \<Rightarrow> fault + (CardType \<times> CardType list)" where
  "pop d = (if d = [] then Inl DeckUnderflow else Inr (last d, butlast d))"

section \<open>Decks (\<^verbatim>\<open>src/lib/game-logic.ts\<close>)\<close>

definition suits :: "Suit list" where
  "suits = [Hearts, Diamonds, Clubs, Spades]"

definition ranks :: "Rank list" where
  "ranks = [R_A, R_2, R_3, R_4, R_5, R_6, R_7, R_8, R_9, R_10, R_J, R_Q, R_K]"

text \<open>The nested \<^verbatim>\<open>for\<close> statements that fill \<^verbatim>\<open>newDeck\<close> and \<^verbatim>\<open>orderedDeck\<close>.\<close>

definition orderedDeck :: "CardType list" where
  "orderedDeck = concat (map (\<lambda>s. map (\<lambda>r. \<lparr>suit = s, rank = r, hidden = None\<rparr>) ranks) suits)"

text \<open>
  The shuffle loop of \<^verbatim>\<open>createDeck\<close>, \<^verbatim>\<open>for (let i = newDeck.length - 1; i > 0; i--)\<close>.
  \<^verbatim>\<open>Math.random()\<close> is below 1, so \<open>j\<close> is at most \<open>i\<close>; the model reduces the draw into
  that range.
\<close>

fun shuffleLoop :: "env \<Rightarrow> nat \<Rightarrow> nat \<Rightarrow> CardType list \<Rightarrow> CardType list \<times> nat" where
  "shuffleLoop e 0 n newDeck = (newDeck, n)"
| "shuffleLoop e (Suc k) n newDeck =
     (let i = Suc k;
          j = mathRandom e n (i + 1) mod (i + 1)
      in shuffleLoop e k (n + 1) (newDeck[i := newDeck ! j, j := newDeck ! i]))"

definition createDeck :: "env \<Rightarrow> nat \<Rightarrow> CardType list \<times> nat" where
  "createDeck e n = shuffleLoop e (length orderedDeck - 1) n orderedDeck"

text \<open>
  Modelled from the spec: \<^verbatim>\<open>generateShuffledDeck\<close> of \<^verbatim>\<open>src/lib/provably-fair.ts\<close> is not
  among the sources. The specification has it derive 52 shuffle indices from the server
  seed and the client seed by a Fisher-Yates permutation of the index range, driven by a
  keyed deterministic stream of the seed pair and a counter, each draw reduced to the
  positions still open.
\<close>

fun fisherYates :: "(nat \<Rightarrow> nat) \<Rightarrow> nat \<Rightarrow> nat \<Rightarrow> nat list \<Rightarrow> nat list" where
  "fisherYates f 0 counter xs = xs"
| "fisherYates f (Suc k) counter xs =
     (let i = Suc k;
          j = f counter mod (i + 1)
      in fisherYates f k (counter + 1) (xs[i := xs ! j, j := xs ! i]))"

text \<open>
  Modelled from the spec: the absent \<^verbatim>\<open>generateShuffledDeck(serverSeed, clientSeed)\<close>,
  the Fisher-Yates permutation of the indices 0 to 51 under the keyed stream of the seeds.
\<close>

definition generateShuffledDeck :: "env \<Rightarrow> string \<Rightarrow> string \<Rightarrow> nat list" where
  "generateShuffledDeck e serverSeed' clientSeed' =
     fisherYates (keyedStream e serverSeed' clientSeed') 51 0 [0..<52]"

text \<open>The loop \<^verbatim>\<open>for (const index of shuffleIndices) shuffledDeck.push(orderedDeck[index])\<close>.\<close>

fun pushShuffled :: "CardType list \<Rightarrow> nat list \<Rightarrow> fault + CardType list" where
  "pushShuffled shuffledDeck [] = Inr shuffledDeck"
| "pushShuffled shuffledDeck (index # shuffleIndices) =
     (if index < length orderedDeck
      then pushShuffled (shuffledDeck @ [orderedDeck ! index]) shuffleIndices
      else Inl IndexOutOfRange)"

definition createProvablyFairDeck :: "env \<Rightarrow> string \<Rightarrow> string \<Rightarrow> fault + CardType list" where
  "createProvablyFairDeck e serverSeed' clientSeed' =
     pushShuffled [] (generateShuffledDeck e serverSeed' clientSeed')"

section \<open>The client view (\<^verbatim>\<open>convertToClientCards\<close>, \<^verbatim>\<open>createClientGameState\<close>)\<close>

text \<open>
  \<^verbatim>\<open>cards.map((card, index) => ...)\<close>. Every entry takes a fresh identifier: the card at
  \<open>index\<close> gets draw \<open>n + index\<close> when the call starts at tick \<open>n\<close>. \<^verbatim>\<open>card.hidden\<close> is
  truthy when the flag is present and true. Logging is left out.
\<close>

definition convertToClientCards ::
  "env \<Rightarrow> nat \<Rightarrow> CardType list \<Rightarrow> bool \<Rightarrow> bool \<Rightarrow> bool \<Rightarrow> ClientCardType list" where
  "convertToClientCards e n cards markNewCard isInitialDeal' hideDealer =
     map (\<lambda>(index, card').
            if hidden card' = Some True then
              \<lparr>idC = uuidv4 e (n + index), suitC = None, rankC = None, hiddenC = True,
               isNew = (markNewCard \<and> index = length cards - 1),
               isInitialDeal = isInitialDeal'\<rparr>
            else
              (let shouldHide = (hideDealer \<and> index > 0)
               in \<lparr>idC = uuidv4 e (n + index), suitC = Some (suit card'),
                   rankC = Some (rank card'), hiddenC = shouldHide,
                   isNew = (markNewCard \<and> index = length cards - 1),
                   isInitialDeal = isInitialDeal'\<rparr>))
         (enumerate 0 cards)"

text \<open>
  \<^verbatim>\<open>createClientGameState\<close> returns the view and the tick after the identifiers of
  both hands have been drawn. The callers that leave out a flag get its default,
  \<^verbatim>\<open>false\<close>, written out.
\<close>

definition createClientGameState ::
  "env \<Rightarrow> nat \<Rightarrow> GameSession \<Rightarrow> bool \<Rightarrow> bool \<Rightarrow> bool \<Rightarrow> ClientGameState \<times> nat" where
  "createClientGameState e n session markNewCard isInitialDeal' hideDealer =
     (let provablyFairData =
            (case provablyFair session of
               Some pf \<Rightarrow>
                 Some \<lparr>gameIdC = gameId pf, clientSeedC = clientSeed pf,
                       hashedServerSeedC = hashedServerSeed pf,
                       serverSeedC = (if completed pf then Some (serverSeed pf) else None),
                       nonceC = nonce pf, completedC = completed pf\<rparr>
             | None \<Rightarrow> None);
          dealerCards' =
            convertToClientCards e n (dealerCards session) markNewCard isInitialDeal' hideDealer;
          n1 = n + length (dealerCards session);
          playerCards' =
            convertToClientCards e n1 (playerCards session) markNewCard isInitialDeal' False;
          n2 = n1 + length (playerCards session);
          dealerScore' =
            (if hideDealer then 0
             else calculateScore
                    (map (\<lambda>card'. if hidden card' = Some True then card'\<lparr>hidden := Some False\<rparr>
                                   else card')
                       (dealerCards session)));
          playerScore' = calculateScore (playerCards session)
      in (\<lparr>sessionId = id' session, dealerCardsC = dealerCards', playerCardsC = playerCards',
           gameStateC = gameState session, balanceC = balance session, betC = bet session,
           dealerScore = dealerScore', playerScore = playerScore',
           gameResultC = gameResult session, message = [],
           provablyFairC = provablyFairData\<rparr>, n2))"

section \<open>The session state machine (\<^verbatim>\<open>src/app/api/game/actions.ts\<close>)\<close>

text \<open>
  The lines that \<^verbatim>\<open>initializeGame\<close>, \<^verbatim>\<open>placeBet\<close> and \<^verbatim>\<open>newRound\<close> each repeat to make
  the record of a round: a game identifier, a server seed of 32 bytes, its hash, a client
  seed of 16 bytes, nonce 0, not completed. Three draws, from tick \<open>n\<close> on.
\<close>

definition newProvablyFairData :: "env \<Rightarrow> nat \<Rightarrow> ProvablyFairData" where
  "newProvablyFairData e n =
     (let gameId' = uuidv4 e n;
          serverSeed' = generateSeed e (n + 1) 32;
          hashedServerSeed' = hashSeed e serverSeed';
          clientSeed' = generateSeed e (n + 2) 16
      in \<lparr>gameId = gameId', serverSeed = serverSeed', hashedServerSeed = hashedServerSeed',
          clientSeed = clientSeed', nonce = 0, completed = False\<rparr>)"

text \<open>
  The view that \<^verbatim>\<open>playerHit\<close>, \<^verbatim>\<open>playerStand\<close> and \<^verbatim>\<open>newRound\<close> return when there is no
  session; it has no \<^verbatim>\<open>provablyFair\<close> field.
\<close>

definition sessionExpiredView :: ClientGameState where
  "sessionExpiredView =
     \<lparr>sessionId = [], dealerCardsC = [], playerCardsC = [], gameStateC = Betting,
      balanceC = 1000, betC = 0, dealerScore = 0, playerScore = 0, gameResultC = None,
      message = ''Session expired. Please start a new game.'', provablyFairC = None\<rparr>"

text \<open>
  \<^verbatim>\<open>initializeGame(initialBalance = 1000)\<close>: \<open>None\<close> is the argument left out. The cookie
  is deleted and the new session stored in its place.
\<close>

definition initializeGame :: "env \<Rightarrow> world \<Rightarrow> number option \<Rightarrow> ClientGameState \<times> world" where
  "initializeGame e w initialBalance =
     (let provablyFairData = newProvablyFairData e (tick w);
          session =
            \<lparr>id' = uuidv4 e (tick w + 3), deck = [], dealerCards = [], playerCards = [],
             gameState = Betting,
             balance = (case initialBalance of None \<Rightarrow> 1000 | Some b \<Rightarrow> b),
             bet = 0, gameResult = None, provablyFair = Some provablyFairData\<rparr>;
          (view, n') = createClientGameState e (tick w + 4) session False False False
      in (view, \<lparr>store = Some session, tick = n'\<rparr>))"

text \<open>
  \<^verbatim>\<open>!session && sessionId\<close>: an identifier that is absent or the empty string is falsy.
\<close>

fun truthy :: "string option \<Rightarrow> bool" where
  "truthy None = False"
| "truthy (Some s) = (s \<noteq> [])"

text \<open>The four cards of the initial deal, popped in the order of the source.\<close>

definition dealInitial :: "GameSession \<Rightarrow> fault + GameSession" where
  "dealInitial session =
     (case pop (deck session) of Inl f \<Rightarrow> Inl f | Inr (c1, d1) \<Rightarrow>
       (case pop d1 of Inl f \<Rightarrow> Inl f | Inr (c2, d2) \<Rightarrow>
         (case pop d2 of Inl f \<Rightarrow> Inl f | Inr (c3, d3) \<Rightarrow>
           (case pop d3 of Inl f \<Rightarrow> Inl f | Inr (c4, d4) \<Rightarrow>
              Inr (session\<lparr>deck := d4,
                     dealerCards := [c1\<lparr>hidden := Some False\<rparr>, c2\<lparr>hidden := Some True\<rparr>],
                     playerCards := [c3\<lparr>hidden := Some False\<rparr>, c4\<lparr>hidden := Some False\<rparr>]\<rparr>)))))"

definition placeBet ::
  "env \<Rightarrow> world \<Rightarrow> number \<Rightarrow> string option \<Rightarrow> fault + (ClientGameState \<times> world)" where
  "placeBet e w bet' sessionId' =
     (let w1 =
            (if store w = None \<and> truthy sessionId' then
               \<lparr>store = Some \<lparr>id' = the sessionId', deck = [], dealerCards = [],
                               playerCards = [], gameState = Betting, balance = 1000, bet = 0,
                               gameResult = None,
                               provablyFair = Some (newProvablyFairData e (tick w))\<rparr>,
                tick = tick w + 3\<rparr>
             else w)
      in case store w1 of
           None \<Rightarrow> Inr (initializeGame e w1 None)
         | Some session \<Rightarrow>
             if bet' \<le> 0 \<or> bet' > balance session then
               (let (view, n') = createClientGameState e (tick w1) session False False False
                in Inr (view\<lparr>message := ''Invalid bet amount''\<rparr>, w1\<lparr>tick := n'\<rparr>))
             else
               (case (case provablyFair session of
                        Some pf \<Rightarrow>
                          (case createProvablyFairDeck e (serverSeed pf) (clientSeed pf) of
                             Inl f \<Rightarrow> Inl f
                           | Inr provablyFairDeck \<Rightarrow> Inr (provablyFairDeck, tick w1))
                      | None \<Rightarrow> Inr (createDeck e (tick w1))) of
                  Inl f \<Rightarrow> Inl f
                | Inr (newDeck, n1) \<Rightarrow>
                    (case dealInitial
                            (session\<lparr>deck := newDeck, bet := bet',
                               balance := balance session - bet', gameState := Playing,
                               gameResult := None\<rparr>) of
                       Inl f \<Rightarrow> Inl f
                     | Inr session' \<Rightarrow>
                         (let (view, n') = createClientGameState e n1 session' False True False
                          in Inr (view, \<lparr>store = Some session', tick = n'\<rparr>)))))"

definition playerHit ::
  "env \<Rightarrow> world \<Rightarrow> string option \<Rightarrow> fault + (ClientGameState \<times> world)" where
  "playerHit e w sessionId' =
     (case store w of
        None \<Rightarrow> Inr (sessionExpiredView, w)
      | Some session \<Rightarrow>
          if gameState session \<noteq> Playing then
            (let (view, n') = createClientGameState e (tick w) session False False False
             in Inr (view\<lparr>message := ''Invalid game state for hit action''\<rparr>, w\<lparr>tick := n'\<rparr>))
          else
            (case pop (deck session) of
               Inl f \<Rightarrow> Inl f
             | Inr (newCard, rest) \<Rightarrow>
                 (let s1 = session\<lparr>deck := rest,
                             playerCards := playerCards session @ [newCard\<lparr>hidden := Some False\<rparr>]\<rparr>;
                      playerScore' = calculateScore (playerCards s1);
                      s2 = (if playerScore' > 21 then
                              s1\<lparr>dealerCards :=
                                    map (\<lambda>card'. card'\<lparr>hidden := Some False\<rparr>) (dealerCards s1),
                                 gameResult := Some Bust, gameState := GameOver\<rparr>
                            else s1);
                      (view, n') = createClientGameState e (tick w) s2 True False False
                  in Inr (view, \<lparr>store = Some s2, tick = n'\<rparr>))))"

text \<open>
  The dealer's loop \<^verbatim>\<open>while (dealerScore < 17)\<close>. \<^verbatim>\<open>dealerScore\<close> is the score of the
  dealer's hand whenever the test runs. Each turn pops a card, pushes it as it is, stores
  the session and builds a view that only the next turn or nobody reads (its identifiers
  are drawn all the same). The loop ends because the deck shrinks.
\<close>

function dealerLoop :: "env \<Rightarrow> world \<Rightarrow> GameSession \<Rightarrow> fault + (GameSession \<times> world)" where
  "dealerLoop e w session =
     (if calculateScore (dealerCards session) < 17 then
        (case pop (deck session) of
           Inl f \<Rightarrow> Inl f
         | Inr (newCard, rest) \<Rightarrow>
             (let session' = session\<lparr>deck := rest, dealerCards := dealerCards session @ [newCard]\<rparr>;
                  (lastGameState, n') = createClientGameState e (tick w) session' True False False
              in dealerLoop e \<lparr>store = Some session', tick = n'\<rparr> session'))
      else Inr (session, w))"
  by pat_completeness auto
termination
  by (relation "measure (\<lambda>(e, w, session). length (deck session))")
     (auto simp: pop_def split: if_splits)

declare dealerLoop.simps [simp del]

text \<open>
  \<^verbatim>\<open>playerStand\<close> from the comment \<^verbatim>\<open>Determine game result\<close> to its end: the result,
  the payout, the completed flag, the stored session and the final view.
\<close>

definition settle :: "env \<Rightarrow> nat \<Rightarrow> GameSession \<Rightarrow> ClientGameState \<times> world" where
  "settle e n session =
     (let result = determineGameResult (playerCards session) (dealerCards session);
          s1 = session\<lparr>gameResult := Some result, gameState := GameOver\<rparr>;
          s2 = (if result \<noteq> DealerWin \<and> result \<noteq> Bust then
                  s1\<lparr>balance := balance s1 + calculatePayout (bet s1) result\<rparr>
                else s1);
          s3 = (case provablyFair s2 of
                  Some pf \<Rightarrow> s2\<lparr>provablyFair := Some (pf\<lparr>completed := True\<rparr>)\<rparr>
                | None \<Rightarrow> s2);
          (view, n') = createClientGameState e n s3 False False False
      in (view, \<lparr>store = Some s3, tick = n'\<rparr>))"

text \<open>
  \<^verbatim>\<open>playerStand\<close> from the comment \<^verbatim>\<open>Reveal dealer's hidden card\<close> on: the reveal, the
  stored session, the dealer's loop, then the settlement.
\<close>

definition standFrom :: "env \<Rightarrow> world \<Rightarrow> GameSession \<Rightarrow> fault + (ClientGameState \<times> world)" where
  "standFrom e w session =
     (let s1 = session\<lparr>dealerCards := map (\<lambda>card'. card'\<lparr>hidden := Some False\<rparr>) (dealerCards session),
                 gameState := DealerTurn\<rparr>;
          (lastGameState, n1) = createClientGameState e (tick w) s1 True False False
      in case dealerLoop e \<lparr>store = Some s1, tick = n1\<rparr> s1 of
           Inl f \<Rightarrow> Inl f
         | Inr (s2, w2) \<Rightarrow> Inr (settle e (tick w2) s2))"

definition playerStand ::
  "env \<Rightarrow> world \<Rightarrow> string option \<Rightarrow> fault + (ClientGameState \<times> world)" where
  "playerStand e w sessionId' =
     (case store w of
        None \<Rightarrow> Inr (sessionExpiredView, w)
      | Some session \<Rightarrow>
          if gameState session \<noteq> Playing then
            (if length (playerCards session) > 0 \<and> length (dealerCards session) > 0
                \<and> gameResult session = None then
               standFrom e (w\<lparr>store := Some (session\<lparr>gameState := Playing\<rparr>)\<rparr>)
                 (session\<lparr>gameState := Playing\<rparr>)
             else
               (let (view, n') = createClientGameState e (tick w) session False False False
                in Inr (view\<lparr>message :=
                                ''Invalid game state for stand action. Please start a new game.''\<rparr>,
                        w\<lparr>tick := n'\<rparr>)))
          else standFrom e w session)"

definition newRound :: "env \<Rightarrow> world \<Rightarrow> string option \<Rightarrow> ClientGameState \<times> world" where
  "newRound e w sessionId' =
     (case store w of
        None \<Rightarrow> if truthy sessionId' then (sessionExpiredView, w) else initializeGame e w None
      | Some session \<Rightarrow>
          (let currentBet = bet session;
               s1 = session\<lparr>gameState := Betting, bet := 0, gameResult := None,
                           dealerCards := [], playerCards := []\<rparr>;
               (s2, n1) = (case provablyFair s1 of
                             Some pf \<Rightarrow>
                               (s1\<lparr>provablyFair := Some (newProvablyFairData e (tick w))\<rparr>,
                                tick w + 3)
                           | None \<Rightarrow> (s1, tick w));
               (clientState, n') = createClientGameState e n1 s2 False False False
           in (clientState\<lparr>betC := currentBet\<rparr>, \<lparr>store = Some s2, tick = n'\<rparr>)))"

section \<open>The disclosure rule and a running example\<close>

text \<open>
  What a view may show of the server seed, given the session in the store when the view
  is returned. With no session, or a session without a record, the view has no
  \<^verbatim>\<open>provablyFair\<close> field. With a record, the view repeats its \<^verbatim>\<open>completed\<close> flag and
  carries the server seed when the flag is set and leaves the field out when it is not.
\<close>

definition serverSeedPolicy :: "GameSession option \<Rightarrow> ClientGameState \<Rightarrow> bool" where
  "serverSeedPolicy stored view =
     (case stored of
        None \<Rightarrow> provablyFairC view = None
      | Some session \<Rightarrow>
          (case provablyFair session of
             None \<Rightarrow> provablyFairC view = None
           | Some pf \<Rightarrow>
               (case provablyFairC view of
                  None \<Rightarrow> False
                | Some cpf \<Rightarrow>
                    completedC cpf = completed pf
                    \<and> serverSeedC cpf = (if completed pf then Some (serverSeed pf) else None))))"

text \<open>
  A round in progress: the dealer shows the ten of clubs over a hidden six, the player
  holds jack and ten of spades, and the first 48 cards of the ordered deck are left, the
  nine of spades on top.
\<close>

definition exampleEnv :: env where
  "exampleEnv =
     \<lparr>uuidv4 = (\<lambda>n. ''id''), generateSeed = (\<lambda>n k. ''seed''), hashSeed = (\<lambda>s. ''hash''),
      mathRandom = (\<lambda>n b. 0), keyedStream = (\<lambda>s c k. k)\<rparr>"

definition exampleSession :: GameSession where
  "exampleSession =
     \<lparr>id' = ''session'', deck = take 48 orderedDeck,
      dealerCards = [\<lparr>suit = Clubs, rank = R_10, hidden = Some False\<rparr>,
                     \<lparr>suit = Diamonds, rank = R_6, hidden = Some True\<rparr>],
      playerCards = [\<lparr>suit = Spades, rank = R_J, hidden = Some False\<rparr>,
                     \<lparr>suit = Spades, rank = R_10, hidden = Some False\<rparr>],
      gameState = Playing, balance = 950, bet = 50, gameResult = None,
      provablyFair =
        Some \<lparr>gameId = ''game'', serverSeed = ''server'', hashedServerSeed = ''hash'',
              clientSeed = ''client'', nonce = 0, completed = False\<rparr>\<rparr>"

definition exampleWorld :: world where
  "exampleWorld = \<lparr>store = Some exampleSession, tick = 0\<rparr>"

text \<open>
  The same round played on a record that is already completed. \<^verbatim>\<open>placeBet\<close> does not
  look at the game state and keeps the record it finds, so a bet placed on a settled
  session, with no \<^verbatim>\<open>newRound\<close> in between, starts such a round.
\<close>

definition reusedSession :: GameSession where
  "reusedSession =
     exampleSession\<lparr>provablyFair :=
        Some \<lparr>gameId = ''game'', serverSeed = ''server'', hashedServerSeed = ''hash'',
              clientSeed = ''client'', nonce = 0, completed = True\<rparr>\<rparr>"

definition reusedWorld :: world where
  "reusedWorld = \<lparr>store = Some reusedSession, tick = 0\<rparr>"

section \<open>Properties of scoring\<close>

lemma foldl_scoreCard:
  "foldl scoreCard (s, a) cards =
     (s + (\<Sum>c\<leftarrow>cards. rankValue_spec (rank c)), a + length (filter (\<lambda>c. rank c = R_A) cards))"
proof (induction cards arbitrary: s a)
  case Nil
  show ?case by simp
next
  case (Cons c cards)
  show ?case by (cases "rank c") (simp_all add: Cons.IH)
qed

lemma adjustAces_downgrade: "adjustAces tot soft = downgrade_spec tot soft"
proof (induction soft arbitrary: tot)
  case 0
  show ?case by (simp add: adjustAces.simps)
next
  case (Suc soft)
  show ?case by (subst adjustAces.simps) (simp add: Suc.IH)
qed

lemma calculateScore_spec: "calculateScore cards = score_spec cards"
  by (simp add: calculateScore_def score_spec_def foldl_scoreCard adjustAces_downgrade)

text \<open>
  Claim C2. For every sequence of cards \<^verbatim>\<open>calculateScore\<close> is the sum of the card values
  (numeric ranks at face value, J, Q and K at 10, every ace at 11 at first), lowered by 10
  again and again while the total is above 21 and an ace still counts 11. An ace and a
  king score 21, two aces 12, and king, queen and two 22, whatever the suits.
\<close>

theorem calculateScore_refines_spec:
  "calculateScore cards = score_spec cards
   \<and> calculateScore [\<lparr>suit = s1, rank = R_A, hidden = h1\<rparr>, \<lparr>suit = s2, rank = R_K, hidden = h2\<rparr>] = 21
   \<and> calculateScore [\<lparr>suit = s1, rank = R_A, hidden = h1\<rparr>, \<lparr>suit = s2, rank = R_A, hidden = h2\<rparr>] = 12
   \<and> calculateScore [\<lparr>suit = s1, rank = R_K, hidden = h1\<rparr>, \<lparr>suit = s2, rank = R_Q, hidden = h2\<rparr>,
        \<lparr>suit = s3, rank = R_2, hidden = h3\<rparr>] = 22"
  by (simp add: calculateScore_spec score_spec_def)

section \<open>Properties of hand resolution and payout\<close>

text \<open>
  Claim C3. For every pair of hands \<^verbatim>\<open>determineGameResult\<close> classifies in this order: a
  player score above 21 is a bust; otherwise a dealer score above 21 is a dealer bust;
  otherwise a player score of exactly 21 on exactly two cards is a push when the dealer
  has 21 on two cards too and a blackjack when not; otherwise the higher total wins and
  equal totals are a push.
\<close>

theorem determineGameResult_precedence:
  "(calculateScore p > 21 \<longrightarrow> determineGameResult p d = Bust)
   \<and> (calculateScore p \<le> 21 \<and> calculateScore d > 21 \<longrightarrow> determineGameResult p d = DealerBust)
   \<and> (calculateScore p \<le> 21 \<and> calculateScore d \<le> 21 \<and> calculateScore p = 21 \<and> length p = 2 \<longrightarrow>
        determineGameResult p d =
          (if calculateScore d = 21 \<and> length d = 2 then Push else Blackjack))
   \<and> (calculateScore p \<le> 21 \<and> calculateScore d \<le> 21 \<and> \<not> (calculateScore p = 21 \<and> length p = 2) \<longrightarrow>
        determineGameResult p d =
          (if calculateScore p > calculateScore d then PlayerWin
           else if calculateScore d > calculateScore p then DealerWin
           else Push))"
  by (simp add: determineGameResult_def Let_def)

theorem determineGameResult_precedence_witness:
  "determineGameResult [\<lparr>suit = Spades, rank = R_A, hidden = Some False\<rparr>, \<lparr>suit = Hearts, rank = R_K, hidden = Some False\<rparr>]
      [\<lparr>suit = Clubs, rank = R_K, hidden = Some False\<rparr>, \<lparr>suit = Hearts, rank = R_Q, hidden = Some False\<rparr>] = Blackjack
   \<and> determineGameResult [\<lparr>suit = Spades, rank = R_A, hidden = Some False\<rparr>, \<lparr>suit = Hearts, rank = R_K, hidden = Some False\<rparr>]
      [\<lparr>suit = Clubs, rank = R_A, hidden = Some False\<rparr>, \<lparr>suit = Hearts, rank = R_Q, hidden = Some False\<rparr>] = Push
   \<and> determineGameResult [\<lparr>suit = Spades, rank = R_10, hidden = Some False\<rparr>, \<lparr>suit = Hearts, rank = R_9, hidden = Some False\<rparr>]
      [\<lparr>suit = Clubs, rank = R_10, hidden = Some False\<rparr>, \<lparr>suit = Hearts, rank = R_8, hidden = Some False\<rparr>] = PlayerWin
   \<and> determineGameResult [\<lparr>suit = Spades, rank = R_K, hidden = Some False\<rparr>, \<lparr>suit = Hearts, rank = R_Q, hidden = Some False\<rparr>,
        \<lparr>suit = Hearts, rank = R_2, hidden = Some False\<rparr>]
      [\<lparr>suit = Clubs, rank = R_10, hidden = Some False\<rparr>, \<lparr>suit = Hearts, rank = R_8, hidden = Some False\<rparr>] = Bust
   \<and> determineGameResult [\<lparr>suit = Spades, rank = R_10, hidden = Some False\<rparr>, \<lparr>suit = Hearts, rank = R_9, hidden = Some False\<rparr>]
      [\<lparr>suit = Clubs, rank = R_10, hidden = Some False\<rparr>, \<lparr>suit = Hearts, rank = R_6, hidden = None\<rparr>,
       \<lparr>suit = Diamonds, rank = R_8, hidden = None\<rparr>] = DealerBust
   \<and> determineGameResult [\<lparr>suit = Spades, rank = R_10, hidden = Some False\<rparr>, \<lparr>suit = Hearts, rank = R_7, hidden = Some False\<rparr>]
      [\<lparr>suit = Clubs, rank = R_10, hidden = Some False\<rparr>, \<lparr>suit = Hearts, rank = R_8, hidden = Some False\<rparr>] = DealerWin"
  using determineGameResult_precedence [of "[\<lparr>suit = Spades, rank = R_A, hidden = Some False\<rparr>, \<lparr>suit = Hearts, rank = R_K, hidden = Some False\<rparr>]"
      "[\<lparr>suit = Clubs, rank = R_K, hidden = Some False\<rparr>, \<lparr>suit = Hearts, rank = R_Q, hidden = Some False\<rparr>]"]
    determineGameResult_precedence [of "[\<lparr>suit = Spades, rank = R_A, hidden = Some False\<rparr>, \<lparr>suit = Hearts, rank = R_K, hidden = Some False\<rparr>]"
      "[\<lparr>suit = Clubs, rank = R_A, hidden = Some False\<rparr>, \<lparr>suit = Hearts, rank = R_Q, hidden = Some False\<rparr>]"]
    determineGameResult_precedence [of "[\<lparr>suit = Spades, rank = R_10, hidden = Some False\<rparr>, \<lparr>suit = Hearts, rank = R_9, hidden = Some False\<rparr>]"
      "[\<lparr>suit = Clubs, rank = R_10, hidden = Some False\<rparr>, \<lparr>suit = Hearts, rank = R_8, hidden = Some False\<rparr>]"]
    determineGameResult_precedence [of "[\<lparr>suit = Spades, rank = R_K, hidden = Some False\<rparr>, \<lparr>suit = Hearts, rank = R_Q, hidden = Some False\<rparr>,
        \<lparr>suit = Hearts, rank = R_2, hidden = Some False\<rparr>]"
      "[\<lparr>suit = Clubs, rank = R_10, hidden = Some False\<rparr>, \<lparr>suit = Hearts, rank = R_8, hidden = Some False\<rparr>]"]
    determineGameResult_precedence [of "[\<lparr>suit = Spades, rank = R_10, hidden = Some False\<rparr>, \<lparr>suit = Hearts, rank = R_9, hidden = Some False\<rparr>]"
      "[\<lparr>suit = Clubs, rank = R_10, hidden = Some False\<rparr>, \<lparr>suit = Hearts, rank = R_6, hidden = None\<rparr>,
       \<lparr>suit = Diamonds, rank = R_8, hidden = None\<rparr>]"]
    determineGameResult_precedence [of "[\<lparr>suit = Spades, rank = R_10, hidden = Some False\<rparr>, \<lparr>suit = Hearts, rank = R_7, hidden = Some False\<rparr>]"
      "[\<lparr>suit = Clubs, rank = R_10, hidden = Some False\<rparr>, \<lparr>suit = Hearts, rank = R_8, hidden = Some False\<rparr>]"]
  by (simp add: calculateScore_spec score_spec_def)

text \<open>
  Claim C4. For every bet and outcome \<^verbatim>\<open>calculatePayout\<close> gives twice the bet for a
  player win and a dealer bust, the bet for a push, two and a half times the bet for a
  blackjack, and nothing for a bust and a dealer win; so 250, 100 and 0 for a bet of 100
  on blackjack, push and dealer win.
\<close>

theorem calculatePayout_table:
  "calculatePayout b PlayerWin = 2 * b
   \<and> calculatePayout b DealerBust = 2 * b
   \<and> calculatePayout b Push = b
   \<and> calculatePayout b Blackjack = 5 / 2 * b
   \<and> calculatePayout b Bust = 0
   \<and> calculatePayout b DealerWin = 0
   \<and> calculatePayout 100 Blackjack = 250
   \<and> calculatePayout 100 Push = 100
   \<and> calculatePayout 100 DealerWin = 0"
  by simp

section \<open>Properties of the provably fair deck\<close>

lemma length_orderedDeck: "length orderedDeck = 52"
  by (simp add: orderedDeck_def suits_def ranks_def)

lemma length_fisherYates: "length (fisherYates f k c xs) = length xs"
  by (induction k arbitrary: c xs) (simp_all add: Let_def)

lemma mset_fisherYates: "k < length xs \<Longrightarrow> mset (fisherYates f k c xs) = mset xs"
proof (induction k arbitrary: c xs)
  case 0
  show ?case by simp
next
  case (Suc k)
  have j: "f c mod (Suc k + 1) < length xs"
    proof -
    have "f c mod (Suc k + 1) < Suc k + 1" by simp
    with Suc.prems show ?thesis by linarith
  qed
  have "mset (xs[Suc k := xs ! (f c mod (Suc k + 1)), f c mod (Suc k + 1) := xs ! Suc k]) = mset xs"
    using Suc.prems j by (simp add: mset_swap)
  then show ?case using Suc.prems Suc.IH [of "xs[Suc k := xs ! (f c mod (Suc k + 1)), f c mod (Suc k + 1) := xs ! Suc k]" "c + 1"]
    by (simp add: Let_def)
qed

lemma pushShuffled_in_range:
  "\<forall>i \<in> set idxs. i < length orderedDeck \<Longrightarrow>
     pushShuffled acc idxs = Inr (acc @ map (\<lambda>i. orderedDeck ! i) idxs)"
  by (induction idxs arbitrary: acc) simp_all

lemma generateShuffledDeck_perm: "mset (generateShuffledDeck e s c) = mset [0..<52]"
  by (simp add: generateShuffledDeck_def mset_fisherYates)

lemma generateShuffledDeck_in_range: "i \<in> set (generateShuffledDeck e s c) \<Longrightarrow> i < 52"
proof -
  assume "i \<in> set (generateShuffledDeck e s c)"
  then have "i \<in># mset (generateShuffledDeck e s c)" by simp
  then have "i \<in># mset [0..<52]" by (simp only: generateShuffledDeck_perm)
  then show ?thesis by simp
qed

lemma createProvablyFairDeck_Inr:
  "createProvablyFairDeck e s c = Inr (map (\<lambda>i. orderedDeck ! i) (generateShuffledDeck e s c))"
  unfolding createProvablyFairDeck_def
  by (subst pushShuffled_in_range) (auto simp: length_orderedDeck dest: generateShuffledDeck_in_range)

lemma generateShuffledDeck_cong:
  "keyedStream e1 s c = keyedStream e2 s c \<Longrightarrow> generateShuffledDeck e1 s c = generateShuffledDeck e2 s c"
  by (simp add: generateShuffledDeck_def)

text \<open>
  Claim C1. For every pair of seeds, any two calls of \<^verbatim>\<open>createProvablyFairDeck\<close> return
  the same sequence of 52 cards: the deck is fixed by the two seeds (through the keyed
  stream they select) and by nothing else of the environment, neither the identifiers
  nor the random draws made so far. The deck is moreover a rearrangement of the ordered
  deck.
\<close>

theorem createProvablyFairDeck_deterministic:
  assumes "keyedStream e1 serverSeed' clientSeed' = keyedStream e2 serverSeed' clientSeed'"
  shows "createProvablyFairDeck e1 serverSeed' clientSeed' = createProvablyFairDeck e2 serverSeed' clientSeed'
         \<and> (\<exists>shuffledDeck. createProvablyFairDeck e1 serverSeed' clientSeed' = Inr shuffledDeck
               \<and> length shuffledDeck = 52 \<and> mset shuffledDeck = mset orderedDeck)"
proof -
  let ?idx = "generateShuffledDeck e1 serverSeed' clientSeed'"
  have len: "length ?idx = 52"
    by (simp add: generateShuffledDeck_def length_fisherYates)
  have "mset (map (\<lambda>i. orderedDeck ! i) ?idx) = image_mset (\<lambda>i. orderedDeck ! i) (mset [0..<52])"
    by (simp only: mset_map generateShuffledDeck_perm)
  also have "\<dots> = mset (map (\<lambda>i. orderedDeck ! i) [0..<length orderedDeck])"
    by (simp only: length_orderedDeck mset_map)
  also have "\<dots> = mset orderedDeck"
    by (simp only: map_nth)
  finally have perm: "mset (map (\<lambda>i. orderedDeck ! i) ?idx) = mset orderedDeck" .
  show ?thesis
    using assms len perm
    by (simp add: createProvablyFairDeck_Inr generateShuffledDeck_cong [OF assms])
qed


theorem createProvablyFairDeck_deterministic_witness:
  "createProvablyFairDeck
       \<lparr>uuidv4 = (\<lambda>n. ''id-a''), generateSeed = (\<lambda>n k. ''seed-a''), hashSeed = (\<lambda>s. s),
        mathRandom = (\<lambda>n b. 0), keyedStream = (\<lambda>s c k. length s + length c + k)\<rparr>
       ''server'' ''client''
     = createProvablyFairDeck
       \<lparr>uuidv4 = (\<lambda>n. ''id-b''), generateSeed = (\<lambda>n k. ''seed-b''), hashSeed = (\<lambda>s. rev s),
        mathRandom = (\<lambda>n b. n), keyedStream = (\<lambda>s c k. length s + length c + k)\<rparr>
       ''server'' ''client''"
  using createProvablyFairDeck_deterministic
    [of "\<lparr>uuidv4 = (\<lambda>n. ''id-a''), generateSeed = (\<lambda>n k. ''seed-a''), hashSeed = (\<lambda>s. s),
          mathRandom = (\<lambda>n b. 0), keyedStream = (\<lambda>s c k. length s + length c + k)\<rparr>"
        "''server''" "''client''"
        "\<lparr>uuidv4 = (\<lambda>n. ''id-b''), generateSeed = (\<lambda>n k. ''seed-b''), hashSeed = (\<lambda>s. rev s),
          mathRandom = (\<lambda>n b. n), keyedStream = (\<lambda>s c k. length s + length c + k)\<rparr>"]
  by simp

section \<open>Properties of the client view\<close>

lemma convertToClientCards_length:
  "length (convertToClientCards e n cards m i h) = length cards"
  by (simp add: convertToClientCards_def)

lemma convertToClientCards_nth:
  "k < length cards \<Longrightarrow>
   convertToClientCards e n cards m i h ! k =
     (if hidden (cards ! k) = Some True then
        \<lparr>idC = uuidv4 e (n + k), suitC = None, rankC = None, hiddenC = True,
         isNew = (m \<and> k = length cards - 1), isInitialDeal = i\<rparr>
      else
        \<lparr>idC = uuidv4 e (n + k), suitC = Some (suit (cards ! k)),
         rankC = Some (rank (cards ! k)), hiddenC = (h \<and> k > 0),
         isNew = (m \<and> k = length cards - 1), isInitialDeal = i\<rparr>)"
  by (simp add: convertToClientCards_def nth_enumerate_eq Let_def)

lemma convertToClientCards_hidden_opaque:
  "k < length cards \<Longrightarrow> hidden (cards ! k) = Some True \<Longrightarrow>
   suitC (convertToClientCards e n cards m i h ! k) = None
   \<and> rankC (convertToClientCards e n cards m i h ! k) = None
   \<and> hiddenC (convertToClientCards e n cards m i h ! k)"
  by (simp add: convertToClientCards_nth)

lemma createClientGameState_hideDealer_score:
  "dealerScore (fst (createClientGameState e n session m i True)) = 0"
  by (simp add: createClientGameState_def Let_def)

text \<open>
  Claim C5. A card whose hidden flag is set is projected as a placeholder without rank
  and suit, and the dealer score is 0 when \<^verbatim>\<open>hideDealer\<close> is set: the two lemmas above.
  The claim also has every dealer card after the first projected without rank and suit
  when \<^verbatim>\<open>hideDealer\<close> is set. The code marks such a card hidden and sends its suit and
  rank all the same: with the king of hearts and the five of spades, both face up, the
  second entry is flagged hidden and still reads five of spades.
\<close>

theorem convertToClientCards_hideDealer_leaks:
  "map (\<lambda>c. (suitC c, rankC c, hiddenC c))
     (convertToClientCards e n
        [\<lparr>suit = Hearts, rank = R_K, hidden = Some False\<rparr>,
         \<lparr>suit = Spades, rank = R_5, hidden = Some False\<rparr>] False False True)
   = [(Some Hearts, Some R_K, False), (Some Spades, Some R_5, True)]"
  by (simp add: convertToClientCards_def)

section \<open>Properties of the session state machine\<close>

lemma pop_Inr: "0 < length d \<Longrightarrow> pop d = Inr (last d, butlast d)"
  by (auto simp: pop_def)

lemma dealInitial_returns: "4 \<le> length (deck s) \<Longrightarrow> \<exists>s'. dealInitial s = Inr s'"
  by (simp add: dealInitial_def pop_def flip: length_0_conv)

lemma placeBet_valid_returns:
  assumes "store w = Some s" and "provablyFair s = Some pf" and "0 < b" and "b \<le> balance s"
  shows "\<exists>view w'. placeBet e w b sid = Inr (view, w')"
proof -
  have "length (map (\<lambda>i. orderedDeck ! i) (generateShuffledDeck e (serverSeed pf) (clientSeed pf))) = 52"
    by (simp add: generateShuffledDeck_def length_fisherYates)
  then have "4 \<le> length (deck (s\<lparr>deck := map (\<lambda>i. orderedDeck ! i)
                  (generateShuffledDeck e (serverSeed pf) (clientSeed pf)),
                bet := b, balance := balance s - b, gameState := Playing, gameResult := None\<rparr>))"
    by simp
  from dealInitial_returns [OF this] obtain s' where
    "dealInitial (s\<lparr>deck := map (\<lambda>i. orderedDeck ! i)
                  (generateShuffledDeck e (serverSeed pf) (clientSeed pf)),
                bet := b, balance := balance s - b, gameState := Playing, gameResult := None\<rparr>) = Inr s'"
    by blast
  then show ?thesis
    using assms
    by (simp add: placeBet_def createProvablyFairDeck_Inr Let_def split: prod.splits)
qed

lemma playerHit_returns:
  "store w = Some s \<Longrightarrow> deck s \<noteq> [] \<Longrightarrow> \<exists>view w'. playerHit e w sid = Inr (view, w')"
  by (simp add: playerHit_def pop_def Let_def split: prod.splits)

text \<open>
  Claim C9. For an existing session and a bet that is not positive or exceeds the
  balance, \<^verbatim>\<open>placeBet\<close> returns a view with the message \<^verbatim>\<open>Invalid bet amount\<close> and leaves
  the stored session as it was: deck, hands, bet, balance and game state unchanged.
\<close>

theorem placeBet_invalid_bet:
  assumes "store w = Some session" and "bet' \<le> 0 \<or> bet' > balance session"
  shows "\<exists>view w'. placeBet e w bet' sessionId' = Inr (view, w')
           \<and> message view = ''Invalid bet amount'' \<and> store w' = Some session
           \<and> balanceC view = balance session \<and> betC view = bet session
           \<and> gameStateC view = gameState session"
  using assms
  by (auto simp: placeBet_def Let_def createClientGameState_def split: prod.splits)

text \<open>
  Claim C8. \<^verbatim>\<open>playerHit\<close> on a session in the playing state draws the top card of the
  deck to the player's hand. If the player's score is then above 21, the state is game
  over with result bust, the dealer's cards are the same cards with their hidden flags
  cleared (no dealer draw), and the balance is unchanged; otherwise the state stays
  playing.
\<close>

theorem playerHit_playing:
  assumes "store w = Some session" and "gameState session = Playing" and "deck session \<noteq> []"
  shows "\<exists>view session' n'.
           playerHit e w sessionId' = Inr (view, \<lparr>store = Some session', tick = n'\<rparr>)
           \<and> playerCards session' = playerCards session @ [(last (deck session))\<lparr>hidden := Some False\<rparr>]
           \<and> deck session' = butlast (deck session)
           \<and> balance session' = balance session
           \<and> gameStateC view = gameState session' \<and> gameResultC view = gameResult session'
           \<and> balanceC view = balance session
           \<and> (if calculateScore (playerCards session') > 21
               then gameState session' = GameOver \<and> gameResult session' = Some Bust
                    \<and> dealerCards session' = map (\<lambda>c. c\<lparr>hidden := Some False\<rparr>) (dealerCards session)
               else gameState session' = Playing \<and> gameResult session' = gameResult session
                    \<and> dealerCards session' = dealerCards session)"
  using assms
  by (simp add: playerHit_def pop_def Let_def createClientGameState_def split: prod.splits)

lemma dealInitial_frame:
  "dealInitial s = Inr s' \<Longrightarrow>
     provablyFair s' = provablyFair s \<and> gameState s' = gameState s \<and> balance s' = balance s"
  by (auto simp: dealInitial_def split: sum.splits)

lemma placeBet_reuses_record:
  assumes "store w = Some s" and "provablyFair s = Some pf" and "0 < b" and "b \<le> balance s"
  shows "\<exists>view s' n'. placeBet e w b sid = Inr (view, \<lparr>store = Some s', tick = n'\<rparr>)
           \<and> gameState s' = Playing \<and> provablyFair s' = Some pf"
proof -
  let ?s0 = "s\<lparr>deck := map (\<lambda>i. orderedDeck ! i)
                  (generateShuffledDeck e (serverSeed pf) (clientSeed pf)),
                bet := b, balance := balance s - b, gameState := Playing, gameResult := None\<rparr>"
  have "length (map (\<lambda>i. orderedDeck ! i) (generateShuffledDeck e (serverSeed pf) (clientSeed pf))) = 52"
    by (simp add: generateShuffledDeck_def length_fisherYates)
  then have "4 \<le> length (deck ?s0)" by simp
  from dealInitial_returns [OF this] obtain s' where d: "dealInitial ?s0 = Inr s'" by blast
  from dealInitial_frame [OF d] have "gameState s' = Playing \<and> provablyFair s' = Some pf"
    using assms(2) by simp
  then show ?thesis
    using assms d
    by (simp add: placeBet_def createProvablyFairDeck_Inr Let_def split: prod.splits)
qed

lemma playerHit_after_round:
  assumes "gameState s = GameOver" and "provablyFair s = Some pf" and "\<not> completed pf"
  shows "\<exists>view m' cpf.
           playerHit e \<lparr>store = Some s, tick = m\<rparr> sid = Inr (view, \<lparr>store = Some s, tick = m'\<rparr>)
           \<and> provablyFairC view = Some cpf \<and> serverSeedC cpf = None"
  using assms by (simp add: playerHit_def createClientGameState_def Let_def)

lemma playerStand_after_round:
  assumes "gameState s = GameOver" and "gameResult s = Some r"
    and "provablyFair s = Some pf" and "\<not> completed pf"
  shows "\<exists>view m' cpf.
           playerStand e \<lparr>store = Some s, tick = m\<rparr> sid = Inr (view, \<lparr>store = Some s, tick = m'\<rparr>)
           \<and> provablyFairC view = Some cpf \<and> serverSeedC cpf = None"
  using assms by (simp add: playerStand_def createClientGameState_def Let_def)

lemma playerHit_bust_run:
  assumes "store w = Some session" and "gameState session = Playing" and "deck session \<noteq> []"
    and "calculateScore (playerCards session @ [(last (deck session))\<lparr>hidden := Some False\<rparr>]) > 21"
  shows "\<exists>view session' n'.
           playerHit e w sessionId' = Inr (view, \<lparr>store = Some session', tick = n'\<rparr>)
           \<and> gameState session' = GameOver
           \<and> gameResult session' = Some Bust
           \<and> provablyFair session' = provablyFair session
           \<and> balance session' = balance session
           \<and> bet session' = bet session
           \<and> provablyFairC view =
               map_option (\<lambda>pf. \<lparr>gameIdC = gameId pf, clientSeedC = clientSeed pf,
                                  hashedServerSeedC = hashedServerSeed pf,
                                  serverSeedC = (if completed pf then Some (serverSeed pf) else None),
                                  nonceC = nonce pf, completedC = completed pf\<rparr>)
                 (provablyFair session)"
  using assms
  by (simp add: playerHit_def pop_def Let_def createClientGameState_def split: prod.splits option.splits)

text \<open>
  Claim C10, as amended. When \<^verbatim>\<open>playerHit\<close> on a session in the playing state draws a
  card that takes the player's score above 21, the round ends as a bust and the call
  leaves the provably-fair record, with its \<^verbatim>\<open>completed\<close> flag, the balance and the bet
  as they were. If the record was not completed before the call, it is not completed
  after it, and no view of the ended round carries the server seed: not the view the
  call returns, and not the view of any later \<^verbatim>\<open>playerHit\<close> or \<^verbatim>\<open>playerStand\<close>, which
  both leave the stored session as it is.
\<close>

theorem playerHit_bust_frame:
  assumes "store w = Some session" and "gameState session = Playing" and "deck session \<noteq> []"
    and "calculateScore (playerCards session @ [(last (deck session))\<lparr>hidden := Some False\<rparr>]) > 21"
  shows "\<exists>view session' n'.
           playerHit e w sessionId' = Inr (view, \<lparr>store = Some session', tick = n'\<rparr>)
           \<and> gameState session' = GameOver
           \<and> gameResult session' = Some Bust
           \<and> provablyFair session' = provablyFair session
           \<and> balance session' = balance session
           \<and> bet session' = bet session
           \<and> (\<forall>pf. provablyFair session = Some pf \<and> \<not> completed pf \<longrightarrow>
                 (\<exists>cpf. provablyFairC view = Some cpf \<and> \<not> completedC cpf
                    \<and> serverSeedC cpf = None)
                 \<and> (\<forall>m sid. \<exists>view2 m' cpf.
                       playerHit e \<lparr>store = Some session', tick = m\<rparr> sid
                         = Inr (view2, \<lparr>store = Some session', tick = m'\<rparr>)
                       \<and> provablyFairC view2 = Some cpf \<and> serverSeedC cpf = None)
                 \<and> (\<forall>m sid. \<exists>view2 m' cpf.
                       playerStand e \<lparr>store = Some session', tick = m\<rparr> sid
                         = Inr (view2, \<lparr>store = Some session', tick = m'\<rparr>)
                       \<and> provablyFairC view2 = Some cpf \<and> serverSeedC cpf = None))
           \<and> (provablyFair session = None \<longrightarrow> provablyFairC view = None)"
proof -
  from playerHit_bust_run [OF assms, of e sessionId'] obtain view session' n' where r:
    "playerHit e w sessionId' = Inr (view, \<lparr>store = Some session', tick = n'\<rparr>)"
    "gameState session' = GameOver"
    "gameResult session' = Some Bust"
    "provablyFair session' = provablyFair session"
    "balance session' = balance session"
    "bet session' = bet session"
    "provablyFairC view =
               map_option (\<lambda>pf. \<lparr>gameIdC = gameId pf, clientSeedC = clientSeed pf,
                                  hashedServerSeedC = hashedServerSeed pf,
                                  serverSeedC = (if completed pf then Some (serverSeed pf) else None),
                                  nonceC = nonce pf, completedC = completed pf\<rparr>)
                 (provablyFair session)"
    by blast
  have later: "(\<exists>cpf. provablyFairC view = Some cpf \<and> \<not> completedC cpf \<and> serverSeedC cpf = None)
                 \<and> (\<forall>m sid. \<exists>view2 m' cpf.
                       playerHit e \<lparr>store = Some session', tick = m\<rparr> sid
                         = Inr (view2, \<lparr>store = Some session', tick = m'\<rparr>)
                       \<and> provablyFairC view2 = Some cpf \<and> serverSeedC cpf = None)
                 \<and> (\<forall>m sid. \<exists>view2 m' cpf.
                       playerStand e \<lparr>store = Some session', tick = m\<rparr> sid
                         = Inr (view2, \<lparr>store = Some session', tick = m'\<rparr>)
                       \<and> provablyFairC view2 = Some cpf \<and> serverSeedC cpf = None)"
    if pf: "provablyFair session = Some pf \<and> \<not> completed pf" for pf
  proof -
    have rec: "provablyFair session' = Some pf" using r(4) pf by simp
    have nc: "\<not> completed pf" using pf by simp
    have a: "\<exists>cpf. provablyFairC view = Some cpf \<and> \<not> completedC cpf \<and> serverSeedC cpf = None"
      using r(7) pf by simp
    show ?thesis
      using a playerHit_after_round [OF r(2) rec nc] playerStand_after_round [OF r(2) r(3) rec nc]
      by blast
  qed
  have none: "provablyFair session = None \<longrightarrow> provablyFairC view = None"
    using r(7) by simp
  show ?thesis
    using r(1-6) later none
    by (intro exI [of _ view] exI [of _ session'] exI [of _ n']) blast
qed

lemma downgrade_spec_lower: "tot - 10 * int soft \<le> downgrade_spec tot soft"
proof (induction soft arbitrary: tot)
  case 0
  show ?case by simp
next
  case (Suc soft)
  show ?case using Suc.IH [of "tot - 10"] by simp
qed

lemma rankValue_spec_lower:
  "int (length cards) + 10 * int (length (filter (\<lambda>c. rank c = R_A) cards))
     \<le> (\<Sum>c\<leftarrow>cards. rankValue_spec (rank c))"
proof (induction cards)
  case Nil
  show ?case by simp
next
  case (Cons c cards)
  then show ?case by (cases "rank c") simp_all
qed

lemma calculateScore_ge_length: "int (length cards) \<le> calculateScore cards"
  using downgrade_spec_lower [of "\<Sum>c\<leftarrow>cards. rankValue_spec (rank c)"
          "length (filter (\<lambda>c. rank c = R_A) cards)"]
        rankValue_spec_lower [of cards]
  by (simp add: calculateScore_spec score_spec_def)

lemma dealerLoop_unfold:
  "dealerLoop e w s =
     (if calculateScore (dealerCards s) < 17 then
        (if deck s = [] then Inl DeckUnderflow
         else dealerLoop e
                \<lparr>store = Some (s\<lparr>deck := butlast (deck s), dealerCards := dealerCards s @ [last (deck s)]\<rparr>),
                 tick = tick w + (length (dealerCards s) + 1) + length (playerCards s)\<rparr>
                (s\<lparr>deck := butlast (deck s), dealerCards := dealerCards s @ [last (deck s)]\<rparr>))
      else Inr (s, w))"
  by (subst dealerLoop.simps) (simp add: pop_def createClientGameState_def Let_def)

lemma dealerLoop_returns:
  "17 \<le> length (dealerCards s) + length (deck s) \<Longrightarrow> \<exists>r. dealerLoop e w s = Inr r"
proof (induction "length (deck s)" arbitrary: s w)
  case 0
  then have "17 \<le> calculateScore (dealerCards s)"
    using calculateScore_ge_length [of "dealerCards s"] by simp
  then show ?case by (subst dealerLoop_unfold) simp
next
  case (Suc n)
  show ?case
  proof (cases "calculateScore (dealerCards s) < 17")
    case False
    then show ?thesis by (subst dealerLoop_unfold) simp
  next
    case True
    let ?s1 = "s\<lparr>deck := butlast (deck s), dealerCards := dealerCards s @ [last (deck s)]\<rparr>"
    have ne: "deck s \<noteq> []" using Suc.hyps(2) by auto
    have "n = length (deck ?s1)" using Suc.hyps(2) by simp
    moreover have "17 \<le> length (dealerCards ?s1) + length (deck ?s1)"
      using Suc.prems ne by simp
    ultimately obtain r where
      "dealerLoop e \<lparr>store = Some ?s1, tick = tick w + (length (dealerCards s) + 1) + length (playerCards s)\<rparr> ?s1 = Inr r"
      using Suc.hyps(1) by blast
    then show ?thesis using True ne by (subst dealerLoop_unfold) simp
  qed
qed

lemma dealerLoop_result:
  "dealerLoop e w s = Inr (s', w') \<Longrightarrow>
   \<exists>k\<le>length (deck s).
      s' = s\<lparr>deck := rev (drop k (rev (deck s))), dealerCards := dealerCards s @ take k (rev (deck s))\<rparr>
      \<and> (\<forall>j<k. calculateScore (dealerCards s @ take j (rev (deck s))) < 17)
      \<and> 17 \<le> calculateScore (dealerCards s')
      \<and> (if k = 0 then w' = w else store w' = Some s')"
proof (induction "length (deck s)" arbitrary: s w)
  case 0
  then have "\<not> calculateScore (dealerCards s) < 17 \<and> s' = s \<and> w' = w"
    using dealerLoop_unfold [of e w s] by (simp split: if_splits)
  then show ?case using 0 by (intro exI [of _ 0]) simp
next
  case (Suc n)
  show ?case
  proof (cases "calculateScore (dealerCards s) < 17")
    case False
    then have "s' = s \<and> w' = w"
      using Suc.prems dealerLoop_unfold [of e w s] by simp
    then show ?thesis using False by (intro exI [of _ 0]) simp
  next
    case True
    let ?s1 = "s\<lparr>deck := butlast (deck s), dealerCards := dealerCards s @ [last (deck s)]\<rparr>"
    let ?w1 = "\<lparr>store = Some ?s1, tick = tick w + (length (dealerCards s) + 1) + length (playerCards s)\<rparr>"
    have ne: "deck s \<noteq> []" using Suc.hyps(2) by auto
    have revd: "rev (deck s) = last (deck s) # rev (butlast (deck s))"
    proof -
      have "rev (butlast (deck s) @ [last (deck s)]) = last (deck s) # rev (butlast (deck s))"
        by simp
      then show ?thesis using ne by simp
    qed
    have len: "n = length (deck ?s1)" using Suc.hyps(2) by simp
    have run: "dealerLoop e ?w1 ?s1 = Inr (s', w')"
      using Suc.prems True ne dealerLoop_unfold [of e w s] by simp
    from Suc.hyps(1) [OF len run] obtain k where k:
      "k \<le> length (deck ?s1)"
      "s' = ?s1\<lparr>deck := rev (drop k (rev (deck ?s1))), dealerCards := dealerCards ?s1 @ take k (rev (deck ?s1))\<rparr>"
      "\<forall>j<k. calculateScore (dealerCards ?s1 @ take j (rev (deck ?s1))) < 17"
      "17 \<le> calculateScore (dealerCards s')"
      "if k = 0 then w' = ?w1 else store w' = Some s'"
      by blast
    have st: "store w' = Some s'"
    proof (cases "k = 0")
      case True
      then show ?thesis using k(2,5) by simp
    next
      case False
      then show ?thesis using k(5) by simp
    qed
    have bound: "\<forall>j<Suc k. calculateScore (dealerCards s @ take j (rev (deck s))) < 17"
    proof (intro allI impI)
      fix j assume "j < Suc k"
      show "calculateScore (dealerCards s @ take j (rev (deck s))) < 17"
      proof (cases j)
        case 0
        then show ?thesis using True by simp
      next
        case (Suc j')
        then have "j' < k" using \<open>j < Suc k\<close> by simp
        then show ?thesis using k(3) Suc by (simp add: revd)
      qed
    qed
    show ?thesis
      using k(1,2,4) st bound ne Suc.hyps(2)
      by (intro exI [of _ "Suc k"]) (simp add: revd)
  qed
qed


lemma settle_result:
  "settle e n s = (view, w') \<Longrightarrow>
   \<exists>s'. store w' = Some s' \<and> deck s' = deck s \<and> dealerCards s' = dealerCards s
      \<and> playerCards s' = playerCards s \<and> bet s' = bet s \<and> gameState s' = GameOver
      \<and> gameResult s' = Some (determineGameResult (playerCards s) (dealerCards s))
      \<and> balance s' =
          (if determineGameResult (playerCards s) (dealerCards s) = DealerWin
              \<or> determineGameResult (playerCards s) (dealerCards s) = Bust
           then balance s
           else balance s + calculatePayout (bet s) (determineGameResult (playerCards s) (dealerCards s)))
      \<and> provablyFair s' = map_option (\<lambda>pf. pf\<lparr>completed := True\<rparr>) (provablyFair s)
      \<and> gameStateC view = GameOver \<and> gameResultC view = gameResult s'
      \<and> balanceC view = balance s'"
  by (auto simp: settle_def Let_def createClientGameState_def split: prod.splits option.splits)

lemma playerStand_returns:
  assumes "store w = Some session" and "gameState session = Playing"
    and "17 \<le> length (dealerCards session) + length (deck session)"
  shows "\<exists>view w'. playerStand e w sessionId' = Inr (view, w')"
proof -
  let ?s1 = "session\<lparr>dealerCards := map (\<lambda>c. c\<lparr>hidden := Some False\<rparr>) (dealerCards session),
                     gameState := DealerTurn\<rparr>"
  let ?w1 = "\<lparr>store = Some ?s1, tick = tick w + length (dealerCards session) + length (playerCards session)\<rparr>"
  have "17 \<le> length (dealerCards ?s1) + length (deck ?s1)" using assms(3) by simp
  from dealerLoop_returns [OF this] obtain r where "dealerLoop e ?w1 ?s1 = Inr r" by blast
  then show ?thesis
    using assms(1,2)
    by (cases r; cases "settle e (tick (snd r)) (fst r)")
       (simp add: playerStand_def standFrom_def createClientGameState_def Let_def)
qed

text \<open>
  Claim C7. \<^verbatim>\<open>playerStand\<close> on a session in the playing state clears the hidden flags of
  the dealer's cards, then moves cards from the top of the deck to the dealer's hand one
  at a time: \<open>k\<close> cards, where the hand scores below 17 before each of the draws and 17 or
  more after the last (soft totals included, the score being that of \<^verbatim>\<open>calculateScore\<close>).
  The result is that of \<^verbatim>\<open>determineGameResult\<close> on the final hands, the payout is added
  to the balance unless the result is a dealer win or a bust, and the state is game over.
  The call returns whenever dealer's hand and deck together hold 17 cards, as they do in
  any round dealt from a 52-card deck.
\<close>

theorem playerStand_playing:
  assumes "store w = Some session" and "gameState session = Playing"
  shows "(17 \<le> length (dealerCards session) + length (deck session) \<longrightarrow>
            (\<exists>view w'. playerStand e w sessionId' = Inr (view, w')))
       \<and> (\<forall>view w'. playerStand e w sessionId' = Inr (view, w') \<longrightarrow>
            (\<exists>session' k.
               store w' = Some session' \<and> k \<le> length (deck session)
               \<and> dealerCards session' =
                   map (\<lambda>c. c\<lparr>hidden := Some False\<rparr>) (dealerCards session) @ take k (rev (deck session))
               \<and> deck session' = rev (drop k (rev (deck session)))
               \<and> (\<forall>j<k. calculateScore
                          (map (\<lambda>c. c\<lparr>hidden := Some False\<rparr>) (dealerCards session)
                             @ take j (rev (deck session))) < 17)
               \<and> 17 \<le> calculateScore (dealerCards session')
               \<and> playerCards session' = playerCards session
               \<and> bet session' = bet session
               \<and> gameState session' = GameOver
               \<and> gameResult session' =
                   Some (determineGameResult (playerCards session) (dealerCards session'))
               \<and> balance session' =
                   (if determineGameResult (playerCards session) (dealerCards session') = DealerWin
                       \<or> determineGameResult (playerCards session) (dealerCards session') = Bust
                    then balance session
                    else balance session
                           + calculatePayout (bet session)
                               (determineGameResult (playerCards session) (dealerCards session')))
               \<and> gameStateC view = GameOver
               \<and> gameResultC view = gameResult session'
               \<and> balanceC view = balance session'))"
proof -
  let ?s1 = "session\<lparr>dealerCards := map (\<lambda>c. c\<lparr>hidden := Some False\<rparr>) (dealerCards session),
                     gameState := DealerTurn\<rparr>"
  let ?w1 = "\<lparr>store = Some ?s1, tick = tick w + length (dealerCards session) + length (playerCards session)\<rparr>"
  have run: "playerStand e w sessionId' =
               (case dealerLoop e ?w1 ?s1 of Inl f \<Rightarrow> Inl f
                | Inr (s2, w2) \<Rightarrow> Inr (settle e (tick w2) s2))"
    using assms by (simp add: playerStand_def standFrom_def createClientGameState_def Let_def)
  have total: "17 \<le> length (dealerCards session) + length (deck session) \<longrightarrow>
                 (\<exists>view w'. playerStand e w sessionId' = Inr (view, w'))"
    using playerStand_returns [OF assms] by blast
  have partial: "\<exists>session' k.
               store w' = Some session' \<and> k \<le> length (deck session)
               \<and> dealerCards session' =
                   map (\<lambda>c. c\<lparr>hidden := Some False\<rparr>) (dealerCards session) @ take k (rev (deck session))
               \<and> deck session' = rev (drop k (rev (deck session)))
               \<and> (\<forall>j<k. calculateScore
                          (map (\<lambda>c. c\<lparr>hidden := Some False\<rparr>) (dealerCards session)
                             @ take j (rev (deck session))) < 17)
               \<and> 17 \<le> calculateScore (dealerCards session')
               \<and> playerCards session' = playerCards session
               \<and> bet session' = bet session
               \<and> gameState session' = GameOver
               \<and> gameResult session' =
                   Some (determineGameResult (playerCards session) (dealerCards session'))
               \<and> balance session' =
                   (if determineGameResult (playerCards session) (dealerCards session') = DealerWin
                       \<or> determineGameResult (playerCards session) (dealerCards session') = Bust
                    then balance session
                    else balance session
                           + calculatePayout (bet session)
                               (determineGameResult (playerCards session) (dealerCards session')))
               \<and> gameStateC view = GameOver
               \<and> gameResultC view = gameResult session'
               \<and> balanceC view = balance session'"
    if ret: "playerStand e w sessionId' = Inr (view, w')" for view w'
  proof -
    from ret obtain s2 w2 where loop: "dealerLoop e ?w1 ?s1 = Inr (s2, w2)"
      and fin: "settle e (tick w2) s2 = (view, w')"
      by (auto simp: run split: sum.splits)
    from dealerLoop_result [OF loop] obtain k where k:
      "k \<le> length (deck ?s1)"
      "s2 = ?s1\<lparr>deck := rev (drop k (rev (deck ?s1))), dealerCards := dealerCards ?s1 @ take k (rev (deck ?s1))\<rparr>"
      "\<forall>j<k. calculateScore (dealerCards ?s1 @ take j (rev (deck ?s1))) < 17"
      "17 \<le> calculateScore (dealerCards s2)"
      by blast
    from settle_result [OF fin] obtain s' where s':
      "store w' = Some s'" "deck s' = deck s2" "dealerCards s' = dealerCards s2"
      "playerCards s' = playerCards s2" "bet s' = bet s2" "gameState s' = GameOver"
      "gameResult s' = Some (determineGameResult (playerCards s2) (dealerCards s2))"
      "balance s' =
          (if determineGameResult (playerCards s2) (dealerCards s2) = DealerWin
              \<or> determineGameResult (playerCards s2) (dealerCards s2) = Bust
           then balance s2
           else balance s2 + calculatePayout (bet s2) (determineGameResult (playerCards s2) (dealerCards s2)))"
      "gameStateC view = GameOver" "gameResultC view = gameResult s'" "balanceC view = balance s'"
      by blast
    have d: "dealerCards s2 = map (\<lambda>c. c\<lparr>hidden := Some False\<rparr>) (dealerCards session) @ take k (rev (deck session))"
      and dk: "deck s2 = rev (drop k (rev (deck session)))"
      and p: "playerCards s2 = playerCards session"
      and b: "bet s2 = bet session" "balance s2 = balance session"
      using k(2) by simp_all
    show ?thesis
      using k(1,3,4) s' by (intro exI [of _ s'] exI [of _ k]) (simp add: d dk p b)
  qed
  show ?thesis using total partial by blast
qed

section \<open>Properties of the disclosure of the server seed\<close>

lemma createClientGameState_policy:
  "serverSeedPolicy (Some session) (fst (createClientGameState e n session m i h))"
  by (simp add: serverSeedPolicy_def createClientGameState_def Let_def split: option.splits)

lemma serverSeedPolicy_message [simp]:
  "serverSeedPolicy st (view\<lparr>message := x\<rparr>) = serverSeedPolicy st view"
  by (simp add: serverSeedPolicy_def split: option.splits)

lemma serverSeedPolicy_betC [simp]:
  "serverSeedPolicy st (view\<lparr>betC := x\<rparr>) = serverSeedPolicy st view"
  by (simp add: serverSeedPolicy_def split: option.splits)

lemma serverSeedPolicy_expired [simp]: "serverSeedPolicy None sessionExpiredView"
  by (simp add: serverSeedPolicy_def sessionExpiredView_def)

lemma createClientGameState_policy':
  "createClientGameState e n session m i h = (view, n') \<Longrightarrow> serverSeedPolicy (Some session) view"
  using createClientGameState_policy [of session e n m i h] by simp

lemma initializeGame_policy:
  "serverSeedPolicy (store (snd (initializeGame e w b))) (fst (initializeGame e w b))"
  by (auto simp: initializeGame_def Let_def split: prod.splits dest: createClientGameState_policy')

lemma newRound_policy:
  "serverSeedPolicy (store (snd (newRound e w sid))) (fst (newRound e w sid))"
  by (cases "store w")
     (auto simp: newRound_def Let_def initializeGame_policy split: prod.splits option.splits
           dest: createClientGameState_policy')

lemma settle_policy: "settle e n s = (view, w') \<Longrightarrow> serverSeedPolicy (store w') view"
  by (auto simp: settle_def Let_def split: prod.splits dest: createClientGameState_policy')

lemma standFrom_policy: "standFrom e w s = Inr (view, w') \<Longrightarrow> serverSeedPolicy (store w') view"
  by (auto simp: standFrom_def Let_def split: prod.splits sum.splits dest: settle_policy)

lemma playerStand_policy: "playerStand e w sid = Inr (view, w') \<Longrightarrow> serverSeedPolicy (store w') view"
  by (cases "store w")
     (auto simp: playerStand_def Let_def split: prod.splits if_splits
           dest: standFrom_policy createClientGameState_policy')

lemma playerHit_policy: "playerHit e w sid = Inr (view, w') \<Longrightarrow> serverSeedPolicy (store w') view"
  by (cases "store w")
     (auto simp: playerHit_def Let_def split: prod.splits if_splits sum.splits
           dest: createClientGameState_policy')

lemma placeBet_policy: "placeBet e w b sid = Inr (view, w') \<Longrightarrow> serverSeedPolicy (store w') view"
  using initializeGame_policy [of e w None]
  by (auto simp: placeBet_def Let_def split: prod.splits if_splits sum.splits option.splits
           dest: createClientGameState_policy')


text \<open>
  Claim C6. Every view that an operation returns follows the disclosure rule for the
  session then in the store: the server seed is left out while the record's \<^verbatim>\<open>completed\<close>
  flag is false and is given once it is true. This holds for \<^verbatim>\<open>initializeGame\<close>,
  \<^verbatim>\<open>placeBet\<close>, \<^verbatim>\<open>playerHit\<close>, \<^verbatim>\<open>playerStand\<close> and \<^verbatim>\<open>newRound\<close>, and for every view
  that \<^verbatim>\<open>createClientGameState\<close> builds.
\<close>

theorem serverSeed_withheld_until_completed:
  "serverSeedPolicy (store (snd (initializeGame e w initialBalance)))
       (fst (initializeGame e w initialBalance))
   \<and> (\<forall>view w'. placeBet e w bet' sessionId' = Inr (view, w') \<longrightarrow> serverSeedPolicy (store w') view)
   \<and> (\<forall>view w'. playerHit e w sessionId' = Inr (view, w') \<longrightarrow> serverSeedPolicy (store w') view)
   \<and> (\<forall>view w'. playerStand e w sessionId' = Inr (view, w') \<longrightarrow> serverSeedPolicy (store w') view)
   \<and> serverSeedPolicy (store (snd (newRound e w sessionId'))) (fst (newRound e w sessionId'))
   \<and> serverSeedPolicy (Some session)
        (fst (createClientGameState e n session markNewCard isInitialDeal' hideDealer))"
  by (intro conjI allI impI;
      (erule placeBet_policy playerHit_policy playerStand_policy
       | rule initializeGame_policy newRound_policy createClientGameState_policy))

section \<open>The example round, run through the theorems\<close>

lemma exampleSession_top:
  "last (deck exampleSession) = \<lparr>suit = Spades, rank = R_9, hidden = None\<rparr>"
  by (simp add: exampleSession_def orderedDeck_def suits_def ranks_def)

lemma exampleSession_deck: "deck exampleSession \<noteq> []" "length (deck exampleSession) = 48"
  by (simp_all add: exampleSession_def orderedDeck_def suits_def ranks_def)

lemma exampleWorld_store: "store exampleWorld = Some exampleSession"
  by (simp add: exampleWorld_def)

lemma exampleSession_playing: "gameState exampleSession = Playing"
  by (simp add: exampleSession_def)

text \<open>
  The view of the example round as every caller in \<^verbatim>\<open>actions.ts\<close> builds it, with
  \<^verbatim>\<open>hideDealer\<close> left at \<^verbatim>\<open>false\<close>: the hole card is a placeholder without rank, and the
  dealer score beside it is the score of both cards.
\<close>

lemma exampleSession_view_score:
  "map rankC (dealerCardsC (fst (createClientGameState e n exampleSession False True False)))
     = [Some R_10, None]
   \<and> dealerScore (fst (createClientGameState e n exampleSession False True False)) = 16"
  by (simp add: createClientGameState_def convertToClientCards_def exampleSession_def Let_def
      calculateScore_spec score_spec_def)

theorem placeBet_invalid_bet_witness:
  "(\<exists>view w'. placeBet exampleEnv exampleWorld 0 None = Inr (view, w')
       \<and> message view = ''Invalid bet amount'' \<and> store w' = Some exampleSession)
   \<and> (\<exists>view w'. placeBet exampleEnv exampleWorld 1000 None = Inr (view, w')
       \<and> message view = ''Invalid bet amount'' \<and> store w' = Some exampleSession)"
proof -
  have low: "(0::rat) \<le> 0 \<or> 0 > balance exampleSession" by simp
  have high: "(1000::rat) \<le> 0 \<or> 1000 > balance exampleSession"
    by (simp add: exampleSession_def)
  show ?thesis
    using placeBet_invalid_bet [OF exampleWorld_store low, of exampleEnv None]
      placeBet_invalid_bet [OF exampleWorld_store high, of exampleEnv None]
    by blast
qed

theorem playerHit_playing_witness:
  "\<exists>view session' n'.
     playerHit exampleEnv exampleWorld None = Inr (view, \<lparr>store = Some session', tick = n'\<rparr>)
     \<and> playerCards session' =
         [\<lparr>suit = Spades, rank = R_J, hidden = Some False\<rparr>,
          \<lparr>suit = Spades, rank = R_10, hidden = Some False\<rparr>,
          \<lparr>suit = Spades, rank = R_9, hidden = Some False\<rparr>]
     \<and> gameState session' = GameOver \<and> gameResult session' = Some Bust
     \<and> dealerCards session' =
         [\<lparr>suit = Clubs, rank = R_10, hidden = Some False\<rparr>,
          \<lparr>suit = Diamonds, rank = R_6, hidden = Some False\<rparr>]
     \<and> balance session' = 950"
proof -
  from playerHit_playing [OF exampleWorld_store exampleSession_playing exampleSession_deck(1),
      of exampleEnv None]
  obtain view session' n' where r:
    "playerHit exampleEnv exampleWorld None = Inr (view, \<lparr>store = Some session', tick = n'\<rparr>)"
    "playerCards session' =
       playerCards exampleSession @ [(last (deck exampleSession))\<lparr>hidden := Some False\<rparr>]"
    "balance session' = balance exampleSession"
    "if calculateScore (playerCards session') > 21
     then gameState session' = GameOver \<and> gameResult session' = Some Bust
          \<and> dealerCards session' = map (\<lambda>c. c\<lparr>hidden := Some False\<rparr>) (dealerCards exampleSession)
     else gameState session' = Playing \<and> gameResult session' = gameResult exampleSession
          \<and> dealerCards session' = dealerCards exampleSession"
    by blast
  have cards: "playerCards session' =
         [\<lparr>suit = Spades, rank = R_J, hidden = Some False\<rparr>,
          \<lparr>suit = Spades, rank = R_10, hidden = Some False\<rparr>,
          \<lparr>suit = Spades, rank = R_9, hidden = Some False\<rparr>]"
    using r(2) by (simp add: exampleSession_top) (simp add: exampleSession_def)
  have "calculateScore (playerCards session') = 29"
    by (simp add: cards calculateScore_spec score_spec_def)
  then have "gameState session' = GameOver \<and> gameResult session' = Some Bust
          \<and> dealerCards session' = map (\<lambda>c. c\<lparr>hidden := Some False\<rparr>) (dealerCards exampleSession)"
    using r(4) by simp
  then show ?thesis
    using r(1,3) cards by (intro exI [of _ view] exI [of _ session'] exI [of _ n'])
      (simp add: exampleSession_def)
qed

theorem playerHit_bust_frame_witness:
  "\<exists>view session' n' cpf.
     playerHit exampleEnv exampleWorld None = Inr (view, \<lparr>store = Some session', tick = n'\<rparr>)
     \<and> gameResult session' = Some Bust
     \<and> provablyFair session' = provablyFair exampleSession
     \<and> balance session' = 950 \<and> bet session' = 50
     \<and> provablyFairC view = Some cpf \<and> \<not> completedC cpf \<and> serverSeedC cpf = None
     \<and> (\<exists>view2 m' cpf2.
           playerStand exampleEnv \<lparr>store = Some session', tick = n'\<rparr> None
             = Inr (view2, \<lparr>store = Some session', tick = m'\<rparr>)
           \<and> provablyFairC view2 = Some cpf2 \<and> serverSeedC cpf2 = None)"
proof -
  have bust: "calculateScore (playerCards exampleSession
                @ [(last (deck exampleSession))\<lparr>hidden := Some False\<rparr>]) > 21"
    by (simp add: exampleSession_top) (simp add: exampleSession_def calculateScore_spec score_spec_def)
  have pf: "provablyFair exampleSession =
              Some \<lparr>gameId = ''game'', serverSeed = ''server'', hashedServerSeed = ''hash'',
                    clientSeed = ''client'', nonce = 0, completed = False\<rparr>
            \<and> \<not> completed \<lparr>gameId = ''game'', serverSeed = ''server'', hashedServerSeed = ''hash'',
                    clientSeed = ''client'', nonce = 0, completed = False\<rparr>"
    by (simp add: exampleSession_def)
  from playerHit_bust_frame [OF exampleWorld_store exampleSession_playing exampleSession_deck(1) bust,
      of exampleEnv None]
  obtain view session' n' where r:
    "playerHit exampleEnv exampleWorld None = Inr (view, \<lparr>store = Some session', tick = n'\<rparr>)"
    "gameResult session' = Some Bust"
    "provablyFair session' = provablyFair exampleSession"
    "balance session' = balance exampleSession"
    "bet session' = bet exampleSession"
    "\<forall>pf. provablyFair exampleSession = Some pf \<and> \<not> completed pf \<longrightarrow>
        (\<exists>cpf. provablyFairC view = Some cpf \<and> \<not> completedC cpf \<and> serverSeedC cpf = None)
        \<and> (\<forall>m sid. \<exists>view2 m' cpf.
              playerHit exampleEnv \<lparr>store = Some session', tick = m\<rparr> sid
                = Inr (view2, \<lparr>store = Some session', tick = m'\<rparr>)
              \<and> provablyFairC view2 = Some cpf \<and> serverSeedC cpf = None)
        \<and> (\<forall>m sid. \<exists>view2 m' cpf.
              playerStand exampleEnv \<lparr>store = Some session', tick = m\<rparr> sid
                = Inr (view2, \<lparr>store = Some session', tick = m'\<rparr>)
              \<and> provablyFairC view2 = Some cpf \<and> serverSeedC cpf = None)"
    by blast
  from r(6) pf obtain cpf where c:
    "provablyFairC view = Some cpf \<and> \<not> completedC cpf \<and> serverSeedC cpf = None"
    by blast
  from r(6) pf have
    "\<exists>view2 m' cpf2.
           playerStand exampleEnv \<lparr>store = Some session', tick = n'\<rparr> None
             = Inr (view2, \<lparr>store = Some session', tick = m'\<rparr>)
           \<and> provablyFairC view2 = Some cpf2 \<and> serverSeedC cpf2 = None"
    by blast
  then show ?thesis
    using c r(1-5) by (intro exI [of _ view] exI [of _ session'] exI [of _ n'] exI [of _ cpf])
      (simp add: exampleSession_def)
qed

text \<open>
  Claim C10 as first stated has the flag false after every bust, and the seed in no view
  of such a round. On the completed record the call returns, the round ends as a bust,
  the flag is still set, and the view carries the server seed.
\<close>

theorem playerHit_bust_discloses_completed_seed:
  "gameState reusedSession = Playing
   \<and> \<not> isl (playerHit exampleEnv reusedWorld None)
   \<and> gameResultC (fst (projr (playerHit exampleEnv reusedWorld None))) = Some Bust
   \<and> map_option completed
       (provablyFair (the (store (snd (projr (playerHit exampleEnv reusedWorld None)))))) = Some True
   \<and> map_option serverSeedC
       (provablyFairC (fst (projr (playerHit exampleEnv reusedWorld None)))) = Some (Some ''server'')"
proof -
  have top: "last (take 48 orderedDeck) = \<lparr>suit = Spades, rank = R_9, hidden = None\<rparr>"
    and ne: "orderedDeck \<noteq> []"
    by (simp_all add: orderedDeck_def suits_def ranks_def)
  show ?thesis
    by (simp add: reusedSession_def reusedWorld_def exampleSession_def playerHit_def pop_def
        Let_def createClientGameState_def top ne calculateScore_spec score_spec_def)
qed

theorem playerStand_playing_witness:
  "\<exists>view w' session'.
     playerStand exampleEnv exampleWorld None = Inr (view, w')
     \<and> store w' = Some session'
     \<and> gameState session' = GameOver
     \<and> 17 \<le> calculateScore (dealerCards session')
     \<and> dealerCards session' =
         [\<lparr>suit = Clubs, rank = R_10, hidden = Some False\<rparr>,
          \<lparr>suit = Diamonds, rank = R_6, hidden = Some False\<rparr>,
          \<lparr>suit = Spades, rank = R_9, hidden = None\<rparr>]
     \<and> gameResult session' = Some DealerBust
     \<and> balance session' = 1050"
proof -
  note inst = playerStand_playing [OF exampleWorld_store exampleSession_playing, of exampleEnv None]
  have enough: "17 \<le> length (dealerCards exampleSession) + length (deck exampleSession)"
    by (simp add: exampleSession_deck(2))
  from inst enough obtain view w' where ret:
    "playerStand exampleEnv exampleWorld None = Inr (view, w')"
    by blast
  from inst ret obtain session' k where r:
    "store w' = Some session'"
    "dealerCards session' =
       map (\<lambda>c. c\<lparr>hidden := Some False\<rparr>) (dealerCards exampleSession)
         @ take k (rev (deck exampleSession))"
    "\<forall>j<k. calculateScore
              (map (\<lambda>c. c\<lparr>hidden := Some False\<rparr>) (dealerCards exampleSession)
                 @ take j (rev (deck exampleSession))) < 17"
    "17 \<le> calculateScore (dealerCards session')"
    "playerCards session' = playerCards exampleSession"
    "gameState session' = GameOver"
    "gameResult session' =
       Some (determineGameResult (playerCards exampleSession) (dealerCards session'))"
    "balance session' =
       (if determineGameResult (playerCards exampleSession) (dealerCards session') = DealerWin
           \<or> determineGameResult (playerCards exampleSession) (dealerCards session') = Bust
        then balance exampleSession
        else balance exampleSession
               + calculatePayout (bet exampleSession)
                   (determineGameResult (playerCards exampleSession) (dealerCards session')))"
    by blast
  have shown: "map (\<lambda>c. c\<lparr>hidden := Some False\<rparr>) (dealerCards exampleSession) =
         [\<lparr>suit = Clubs, rank = R_10, hidden = Some False\<rparr>,
          \<lparr>suit = Diamonds, rank = R_6, hidden = Some False\<rparr>]"
    by (simp add: exampleSession_def)
  have pile: "take (Suc 0) (rev (deck exampleSession)) = [\<lparr>suit = Spades, rank = R_9, hidden = None\<rparr>]"
    using exampleSession_top exampleSession_deck(1)
    by (cases "deck exampleSession" rule: rev_cases) simp_all
  have k0: "k \<noteq> 0"
  proof
    assume "k = 0"
    then show False
      using r(2,4) by (simp add: shown calculateScore_spec score_spec_def)
  qed
  have k1: "\<not> 1 < k"
  proof
    assume "1 < k"
    then have "calculateScore
              (map (\<lambda>c. c\<lparr>hidden := Some False\<rparr>) (dealerCards exampleSession)
                 @ take (Suc 0) (rev (deck exampleSession))) < 17"
      using r(3) by simp
    then show False
      by (simp add: shown pile calculateScore_spec score_spec_def)
  qed
  have k: "k = Suc 0" using k0 k1 by simp
  have dealer: "dealerCards session' =
         [\<lparr>suit = Clubs, rank = R_10, hidden = Some False\<rparr>,
          \<lparr>suit = Diamonds, rank = R_6, hidden = Some False\<rparr>,
          \<lparr>suit = Spades, rank = R_9, hidden = None\<rparr>]"
    using r(2) by (simp add: k shown pile)
  have res: "determineGameResult (playerCards exampleSession) (dealerCards session') = DealerBust"
    by (simp add: dealer determineGameResult_def exampleSession_def calculateScore_spec score_spec_def)
  show ?thesis
    using ret r(1,4,6,7,8) dealer res
    by (intro exI [of _ view] exI [of _ w'] exI [of _ session']) (simp add: exampleSession_def)
qed

theorem serverSeed_withheld_until_completed_witness:
  "(\<exists>view w'. placeBet exampleEnv exampleWorld 25 None = Inr (view, w')
       \<and> serverSeedPolicy (store w') view)
   \<and> (\<exists>view w'. playerHit exampleEnv exampleWorld None = Inr (view, w')
       \<and> serverSeedPolicy (store w') view)
   \<and> (\<exists>view w'. playerStand exampleEnv exampleWorld None = Inr (view, w')
       \<and> serverSeedPolicy (store w') view)"
proof -
  have pf: "provablyFair exampleSession =
              Some \<lparr>gameId = ''game'', serverSeed = ''server'', hashedServerSeed = ''hash'',
                    clientSeed = ''client'', nonce = 0, completed = False\<rparr>"
    and bal: "(0::rat) < 25" "25 \<le> balance exampleSession"
    by (simp_all add: exampleSession_def)
  have enough: "17 \<le> length (dealerCards exampleSession) + length (deck exampleSession)"
    by (simp add: exampleSession_deck(2))
  from placeBet_valid_returns [OF exampleWorld_store pf bal, of exampleEnv None]
  obtain v1 w1 where a: "placeBet exampleEnv exampleWorld 25 None = Inr (v1, w1)" by blast
  from playerHit_returns [OF exampleWorld_store exampleSession_deck(1), of exampleEnv None]
  obtain v2 w2 where b: "playerHit exampleEnv exampleWorld None = Inr (v2, w2)" by blast
  from playerStand_returns [OF exampleWorld_store exampleSession_playing enough, of exampleEnv None]
  obtain v3 w3 where c: "playerStand exampleEnv exampleWorld None = Inr (v3, w3)" by blast
  show ?thesis
    using a b c
      serverSeed_withheld_until_completed [of exampleEnv exampleWorld None 25 None]
    by blast
qed

end
